theory Spec2Isabelle
  imports Main "HOL-Library.Word"
begin

section \<open>Library values used by main.go\<close>

subsection \<open>Snowflakes\<close>

text \<open>
  Every Discord identifier (\<open>discord.UserID\<close>, \<open>GuildID\<close>, \<open>ChannelID\<close>,
  \<open>RoleID\<close>, \<open>MessageID\<close>) is a \<open>uint64\<close>. These are the functions of
  arikawa v3.3.5, the version go.mod requires: \<open>NullSnowflake\<close> is
  \<open>^Snowflake(0)\<close>, all bits set; \<open>IsValid\<close> is
  \<open>!(int64(s) == 0 || s == NullSnowflake)\<close>; \<open>String\<close> is the empty string for
  a snowflake that is not valid and \<open>strconv.FormatUint(uint64(s), 10)\<close> otherwise;
  \<open>Mention\<close> of a user identifier is \<open>"<@" + s.String() + ">"\<close>.
\<close>

type_synonym Snowflake = "64 word"

definition NullSnowflake :: Snowflake where
  "NullSnowflake = - 1"

definition IsValid :: "Snowflake \<Rightarrow> bool" where
  "IsValid s = (\<not> (sint s = 0 \<or> s = NullSnowflake))"

definition digit :: "nat \<Rightarrow> char" where
  "digit d = char_of (48 + d)"

fun FormatUint :: "nat \<Rightarrow> string" where
  "FormatUint n =
     (if n < 10 then [digit n] else FormatUint (n div 10) @ [digit (n mod 10)])"

declare FormatUint.simps [simp del]

definition Snowflake_String :: "Snowflake \<Rightarrow> string" where
  "Snowflake_String s = (if \<not> IsValid s then [] else FormatUint (unat s))"

definition Mention :: "Snowflake \<Rightarrow> string" where
  "Mention s = ''<@'' @ Snowflake_String s @ ''>''"

subsection \<open>Time\<close>

text \<open>
  An instant is a number of nanoseconds on one time line whose origin is the zero
  \<open>time.Time\<close>; a \<open>time.Duration\<close> is an \<open>int64\<close> of nanoseconds. \<open>Sub\<close>
  saturates at the ends of the \<open>int64\<close> range, as \<open>Time.Sub\<close> does, and
  \<open>time.Since(t)\<close> is \<open>time.Now().Sub(t)\<close>: the clock reading is the first argument.
\<close>

type_synonym Time = int
type_synonym Duration = int

definition maxDuration :: Duration where
  "maxDuration = 2 ^ 63 - 1"

definition minDuration :: Duration where
  "minDuration = - (2 ^ 63)"

definition Sub :: "Time \<Rightarrow> Time \<Rightarrow> Duration" where
  "Sub t u =
     (let d = t - u in
      if maxDuration < d then maxDuration
      else if d < minDuration then minDuration
      else d)"

definition Since :: "Time \<Rightarrow> Time \<Rightarrow> Duration" where
  "Since now t = Sub now t"

definition Hour :: Duration where
  "Hour = 3600000000000"

definition Minute :: Duration where
  "Minute = 60000000000"

subsection \<open>Package strings\<close>

text \<open>
  A Go string is a sequence of bytes. \<open>HasPrefix\<close>, \<open>TrimPrefix\<close>, \<open>Index\<close> and
  \<open>Cut\<close> work on bytes. \<open>TrimSpace\<close> and \<open>ToLower\<close> have a byte-wise path for
  ASCII and fall back to the Unicode tables as soon as they meet a byte at or above
  \<open>utf8.RuneSelf\<close>; the three fall-backs are parameters of the model.
\<close>

definition HasPrefix :: "string \<Rightarrow> string \<Rightarrow> bool" where
  "HasPrefix s p = (length p \<le> length s \<and> take (length p) s = p)"

definition TrimPrefix :: "string \<Rightarrow> string \<Rightarrow> string" where
  "TrimPrefix s p = (if HasPrefix s p then drop (length p) s else s)"

fun Index :: "string \<Rightarrow> string \<Rightarrow> nat option" where
  "Index [] sep = (if sep = [] then Some 0 else None)"
| "Index (c # cs) sep =
     (if HasPrefix (c # cs) sep then Some 0 else map_option Suc (Index cs sep))"

definition Cut :: "string \<Rightarrow> string \<Rightarrow> string \<times> string \<times> bool" where
  "Cut s sep =
     (case Index s sep of
        Some i \<Rightarrow> (take i s, drop (i + length sep) s, True)
      | None \<Rightarrow> (s, [], False))"

record unicode =
  TrimFunc_IsSpace :: "string \<Rightarrow> string"
  TrimRightFunc_IsSpace :: "string \<Rightarrow> string"
  Map_ToLower :: "string \<Rightarrow> string"

definition asciiSpace :: "char \<Rightarrow> bool" where
  "asciiSpace c =
     (c = CHR 0x09 \<or> c = CHR 0x0A \<or> c = CHR 0x0B \<or> c = CHR 0x0C \<or> c = CHR 0x0D \<or> c = CHR 0x20)"

definition RuneSelf :: nat where
  "RuneSelf = 128"

definition isASCII :: "char \<Rightarrow> bool" where
  "isASCII c = ((of_char c :: nat) < RuneSelf)"

definition TrimSpace :: "unicode \<Rightarrow> string \<Rightarrow> string" where
  "TrimSpace u s =
     (let t = dropWhile asciiSpace s in
      case t of
        c # _ \<Rightarrow>
          if \<not> isASCII c then TrimFunc_IsSpace u t
          else
            (let r = rev (dropWhile asciiSpace (rev t)) in
             if r \<noteq> [] \<and> \<not> isASCII (last r) then TrimRightFunc_IsSpace u r else r)
      | [] \<Rightarrow> [])"

definition isUpper :: "char \<Rightarrow> bool" where
  "isUpper c = ((of_char (CHR ''A'') :: nat) \<le> of_char c \<and> (of_char c :: nat) \<le> of_char (CHR ''Z''))"

definition lowerByte :: "char \<Rightarrow> char" where
  "lowerByte c = (if isUpper c then char_of ((of_char c :: nat) + 32) else c)"

definition ToLower :: "unicode \<Rightarrow> string \<Rightarrow> string" where
  "ToLower u s = (if list_all isASCII s then map lowerByte s else Map_ToLower u s)"

subsection \<open>Package slices\<close>

fun ContainsFunc :: "'a list \<Rightarrow> ('a \<Rightarrow> bool) \<Rightarrow> bool" where
  "ContainsFunc [] f = False"
| "ContainsFunc (x # xs) f = (if f x then True else ContainsFunc xs f)"

fun Contains :: "'a list \<Rightarrow> 'a \<Rightarrow> bool" where
  "Contains [] v = False"
| "Contains (x # xs) v = (if v = x then True else Contains xs v)"

section \<open>The data of main.go\<close>

text \<open>
  \<open>botSettings\<close> is embedded in \<open>botState\<close>. The functions below take the state,
  and with it the settings, as an argument; \<open>settings\<close> is the value the program is
  built with.
\<close>

record botSettings =
  TargetChannelID :: Snowflake
  AllowedRoleIDs :: "Snowflake list"
  MinAnnounceTimeGap :: Duration


record botState = botSettings +
  SelfID :: Snowflake
  TargetGuildID :: Snowflake
  LastAnnouncedTime :: Time

record parsedCommand =
  Command :: string
  Body :: string

text \<open>
  The fields of a \<open>gateway.MessageCreateEvent\<close> that main.go reads. \<open>Member\<close> is a
  pointer: \<open>None\<close> is \<open>nil\<close>.
\<close>

record discord_Member =
  RoleIDs :: "Snowflake list"

record MessageCreateEvent =
  MsgID :: Snowflake
  ChannelID :: Snowflake
  GuildID :: Snowflake
  AuthorID :: Snowflake
  Content :: string
  Member :: "discord_Member option"

datatype error = CtxErr | Errorf string | LibErr string

datatype level = Debug | Info | Warn | Error

text \<open>
  What the loop does to the outside: the calls on the session that change something,
  the calls on the persistent map \<open>lastSentAuthors\<close>, and the log lines.
\<close>

datatype effect =
    Subscribe Snowflake
  | AddSyncHandler
  | SendMessage Snowflake string
  | EditMessage Snowflake Snowflake string
  | SendMessageReply Snowflake string Snowflake
  | Load Snowflake
  | Store Snowflake Snowflake
  | Slog level string

text \<open>
  What the outside answers while one event is handled: the cached channel's guild or
  an error, whether \<open>MessageMentions\<close> has the mention flag set, the two clock
  readings (\<open>time.Since\<close> before the send, \<open>time.Now\<close> after it), and the result
  of every call that can fail.
\<close>

record session =
  ans_Channel :: "error + Snowflake"
  ans_MessageMentions :: bool
  ans_Since :: Time
  ans_SendMessage :: "error + Snowflake"
  ans_Now :: Time
  ans_Store :: "error option"
  ans_Load :: "error option"
  ans_EditMessage :: "error option"
  ans_SendMessageReply :: "error option"

text \<open>
  The persistent map \<open>lastSentAuthors\<close> from authors to the identifiers of their last
  announcements. \<open>Load\<close> reads it; a \<open>Store\<close> that returns no error writes the
  entry, one that returns an error leaves the map as it was.
\<close>

type_synonym lastSentAuthors = "Snowflake \<rightharpoonup> Snowflake"

section \<open>parseCommand\<close>

definition parseCommand ::
  "unicode \<Rightarrow> session \<Rightarrow> botState \<Rightarrow> MessageCreateEvent \<Rightarrow> error + parsedCommand option" where
  "parseCommand u dsession bs msg =
     (case Member msg of
        None \<Rightarrow> Inr None
      | Some member \<Rightarrow>
          if GuildID msg \<noteq> TargetGuildID bs then Inr None
          else if \<not> ans_MessageMentions dsession then Inr None
          else if \<not> ContainsFunc (RoleIDs member) (\<lambda>id. Contains (AllowedRoleIDs bs) id)
            then Inr None
          else
            (case Cut (Content msg) [CHR 0x0A] of
               (header, body, ok) \<Rightarrow>
                 if \<not> ok then Inr None
                 else if \<not> HasPrefix header (Mention (SelfID bs)) then Inr None
                 else
                   (let command =
                      ToLower u (TrimSpace u (TrimPrefix header (Mention (SelfID bs))))
                    in
                      if command = [] then Inr None
                      else if body = [] then Inr None
                      else Inr (Some \<lparr>Command = command, Body = body\<rparr>))))"

section \<open>The control loop of run\<close>

definition sendReply :: "session \<Rightarrow> MessageCreateEvent \<Rightarrow> string \<Rightarrow> effect list" where
  "sendReply s msg content =
     SendMessageReply (ChannelID msg) (Mention (AuthorID msg) @ '', '' @ content) (MsgID msg) #
     (case ans_SendMessageReply s of
        Some err \<Rightarrow> [Slog Error ''Bot has failed to deliver a reply.'']
      | None \<Rightarrow> [])"

definition replyInternalError :: "session \<Rightarrow> MessageCreateEvent \<Rightarrow> effect list" where
  "replyInternalError s msg =
     sendReply s msg ''this bot has encountered an internal error. This error has been logged.''"

definition trySubscribe ::
  "session \<Rightarrow> botState \<Rightarrow> bool \<times> effect list \<times> botState" where
  "trySubscribe s bs =
     (if IsValid (TargetGuildID bs) then (True, [], bs)
      else
        (case ans_Channel s of
           Inl err \<Rightarrow>
             (False, [Slog Info ''The bot tried to get the target channel, but it failed.''], bs)
         | Inr guild \<Rightarrow>
             (True,
              [Subscribe guild, AddSyncHandler,
               Slog Info ''Bot has subscribed to the target channel's guild. It is now ready to serve.''],
              bs\<lparr>TargetGuildID := guild\<rparr>)))"

text \<open>The branch \<open>case "announce"\<close> of the switch.\<close>

definition run_announce ::
  "session \<Rightarrow> botState \<Rightarrow> lastSentAuthors \<Rightarrow> MessageCreateEvent \<Rightarrow> parsedCommand \<Rightarrow>
     effect list \<times> botState \<times> lastSentAuthors" where
  "run_announce s bs db ev command =
     (if Since (ans_Since s) (LastAnnouncedTime bs) < MinAnnounceTimeGap bs
      then (sendReply s ev ''please wait before sending another announcement.'', bs, db)
      else
        (case ans_SendMessage s of
           Inl err \<Rightarrow>
             (SendMessage (TargetChannelID bs) (Body command) #
              Slog Error ''Bot has failed to send the announcement message.'' #
              replyInternalError s ev,
              bs, db)
         | Inr target \<Rightarrow>
             (SendMessage (TargetChannelID bs) (Body command) #
              sendReply s ev ''the announcement has been sent.'' @
              Store (AuthorID ev) target #
              (case ans_Store s of
                 Some err \<Rightarrow>
                   [Slog Warn ''Bot has failed to store the last message sent by the author.'']
               | None \<Rightarrow> []),
              bs\<lparr>LastAnnouncedTime := ans_Now s\<rparr>,
              (case ans_Store s of
                 Some err \<Rightarrow> db
               | None \<Rightarrow> db(AuthorID ev \<mapsto> target)))))"

text \<open>The branch \<open>case "edit"\<close> of the switch.\<close>

definition run_edit ::
  "session \<Rightarrow> botState \<Rightarrow> lastSentAuthors \<Rightarrow> MessageCreateEvent \<Rightarrow> parsedCommand \<Rightarrow>
     effect list \<times> botState \<times> lastSentAuthors" where
  "run_edit s bs db ev command =
     (case ans_Load s of
        Some err \<Rightarrow>
          (Load (AuthorID ev) #
           Slog Error ''Bots has failed to look up the last message sent by the author.'' #
           replyInternalError s ev,
           bs, db)
      | None \<Rightarrow>
          (case db (AuthorID ev) of
             None \<Rightarrow>
               (Load (AuthorID ev) #
                sendReply s ev ''this bot could not find the last announcement you sent.'',
                bs, db)
           | Some lastSent \<Rightarrow>
               (case ans_EditMessage s of
                  Some err \<Rightarrow>
                    (Load (AuthorID ev) #
                     EditMessage (TargetChannelID bs) lastSent (Body command) #
                     Slog Error ''Bot has failed to edit the last announcement message.'' #
                     replyInternalError s ev,
                     bs, db)
                | None \<Rightarrow>
                    ([Load (AuthorID ev),
                      EditMessage (TargetChannelID bs) lastSent (Body command)],
                     bs, db))))"

text \<open>The switch on \<open>command.Command\<close>: it has no default case.\<close>

definition run_switch ::
  "session \<Rightarrow> botState \<Rightarrow> lastSentAuthors \<Rightarrow> MessageCreateEvent \<Rightarrow> parsedCommand \<Rightarrow>
     effect list \<times> botState \<times> lastSentAuthors" where
  "run_switch s bs db ev command =
     (if Command command = ''announce'' then run_announce s bs db ev command
      else if Command command = ''edit'' then run_edit s bs db ev command
      else ([], bs, db))"

text \<open>The branch \<open>case ev := <-msgCh\<close> of the select.\<close>

definition run_msg ::
  "unicode \<Rightarrow> session \<Rightarrow> botState \<Rightarrow> lastSentAuthors \<Rightarrow> MessageCreateEvent \<Rightarrow>
     effect list \<times> botState \<times> lastSentAuthors" where
  "run_msg u s bs db ev =
     (case parseCommand u s bs ev of
        Inl err \<Rightarrow>
          ([Slog Debug ''Bot was unable to parse the command due to an internal error.''],
           bs, db)
      | Inr None \<Rightarrow> ([], bs, db)
      | Inr (Some command) \<Rightarrow>
          (case run_switch s bs db ev command of
             (fx, bs', db') \<Rightarrow>
               (Slog Info ''This bot has received a valid command.'' # fx, bs', db')))"

text \<open>
  What the select receives: the context is done, the timer of
  \<open>time.After(10 * time.Second)\<close> fires, or one of the four event channels delivers.
\<close>

datatype event =
    Done
  | StartupTimeout
  | Ready Snowflake
  | ReadySupplemental
  | GuildCreate
  | MessageCreate MessageCreateEvent

text \<open>
  One iteration of the \<open>for { select { ... } }\<close>: \<open>Some err\<close> is the
  \<open>return err\<close> that leaves the loop, \<open>None\<close> is the next iteration.
\<close>

fun run_select ::
  "unicode \<Rightarrow> botState \<times> lastSentAuthors \<Rightarrow> event \<times> session \<Rightarrow>
     error option \<times> effect list \<times> botState \<times> lastSentAuthors" where
  "run_select u (bs, db) (Done, s) = (Some CtxErr, [], bs, db)"
| "run_select u (bs, db) (StartupTimeout, s) =
     (Some (Errorf ''bot has failed to start up in time''), [], bs, db)"
| "run_select u (bs, db) (Ready user, s) =
     (case trySubscribe s (bs\<lparr>SelfID := user\<rparr>) of
        (ok, fx, bs') \<Rightarrow>
          (None, Slog Info ''This bot is online. It is preparing to serve.'' # fx, bs', db))"
| "run_select u (bs, db) (ReadySupplemental, s) =
     (case trySubscribe s bs of (ok, fx, bs') \<Rightarrow> (None, fx, bs', db))"
| "run_select u (bs, db) (GuildCreate, s) =
     (case trySubscribe s bs of (ok, fx, bs') \<Rightarrow> (None, fx, bs', db))"
| "run_select u (bs, db) (MessageCreate ev, s) =
     (case run_msg u s bs db ev of (fx, bs', db') \<Rightarrow> (None, fx, bs', db'))"

text \<open>
  The loop over the events the select receives, in the order it receives them. The
  result is \<open>None\<close> while the loop is still waiting in the select after the last
  event of the list.
\<close>

fun run_loop ::
  "unicode \<Rightarrow> botState \<times> lastSentAuthors \<Rightarrow> (event \<times> session) list \<Rightarrow>
     error option \<times> effect list \<times> botState \<times> lastSentAuthors" where
  "run_loop u (bs, db) [] = (None, [], bs, db)"
| "run_loop u (bs, db) (e # es) =
     (case run_select u (bs, db) e of
        (Some err, fx, bs', db') \<Rightarrow> (Some err, fx, bs', db')
      | (None, fx, bs', db') \<Rightarrow>
          (case run_loop u (bs', db') es of
             (res, fx', st) \<Rightarrow> (res, fx @ fx', st)))"

text \<open>\<open>bot := botState{botSettings: settings}\<close>: every other field is zero.\<close>

definition initial :: "botSettings \<Rightarrow> botState" where
  "initial st =
     \<lparr>TargetChannelID = TargetChannelID st,
      AllowedRoleIDs = AllowedRoleIDs st,
      MinAnnounceTimeGap = MinAnnounceTimeGap st,
      SelfID = 0, TargetGuildID = 0, LastAnnouncedTime = 0\<rparr>"



section \<open>The specification's trimming\<close>

text \<open>
  What the specification calls trimming the surrounding whitespace, written for a
  string of ASCII bytes: the white space bytes are dropped from both ends. It is
  compared with \<open>TrimSpace\<close> below.
\<close>

definition strip :: "string \<Rightarrow> string" where
  "strip x = rev (dropWhile asciiSpace (rev (dropWhile asciiSpace x)))"

section \<open>Concrete inputs\<close>

text \<open>
  The inputs the closed theorems below are evaluated at. No byte of their strings is
  at or above \<open>utf8.RuneSelf\<close>, so the Unicode fall-backs of \<open>no_unicode\<close> are
  never called.
\<close>

definition no_unicode :: unicode where
  "no_unicode = \<lparr>TrimFunc_IsSpace = id, TrimRightFunc_IsSpace = id, Map_ToLower = id\<rparr>"

definition ex_settings :: botSettings where
  "ex_settings = \<lparr>TargetChannelID = 100, AllowedRoleIDs = [5, 6], MinAnnounceTimeGap = 4 * Hour\<rparr>"

definition ex_bot :: botState where
  "ex_bot = (initial ex_settings)\<lparr>SelfID := 1, TargetGuildID := 7\<rparr>"

definition ex_msg :: "string \<Rightarrow> MessageCreateEvent" where
  "ex_msg content =
     \<lparr>MsgID = 900, ChannelID = 200, GuildID = 7, AuthorID = 42, Content = content,
      Member = Some \<lparr>RoleIDs = [3, 5]\<rparr>\<rparr>"

definition ex_session :: session where
  "ex_session =
     \<lparr>ans_Channel = Inr 7, ans_MessageMentions = True, ans_Since = 1000 * Hour,
      ans_SendMessage = Inr 555, ans_Now = 1000 * Hour + 1, ans_Store = None, ans_Load = None,
      ans_EditMessage = None, ans_SendMessageReply = None\<rparr>"

definition ex_edit :: parsedCommand where
  "ex_edit = \<lparr>Command = ''edit'', Body = ''Y''\<rparr>"

definition ex_announce :: parsedCommand where
  "ex_announce = \<lparr>Command = ''announce'', Body = ''X''\<rparr>"

section \<open>Facts about the library functions\<close>

lemma ContainsFunc_iff: "ContainsFunc xs f \<longleftrightarrow> (\<exists>x \<in> set xs. f x)"
  by (induction xs) auto

lemma Contains_iff: "Contains xs v \<longleftrightarrow> v \<in> set xs"
  by (induction xs) auto

lemma ContainsFunc_Contains:
  "ContainsFunc rs (\<lambda>id. Contains allowed id) \<longleftrightarrow> set rs \<inter> set allowed \<noteq> {}"
  by (auto simp: ContainsFunc_iff Contains_iff)

lemma Index_None: "c \<notin> set s \<Longrightarrow> Index s [c] = None"
  by (induction s) (auto simp: HasPrefix_def)

lemma Index_Some: "c \<notin> set h \<Longrightarrow> Index (h @ c # b) [c] = Some (length h)"
  by (induction h) (auto simp: HasPrefix_def)

lemma Cut_not_found: "c \<notin> set s \<Longrightarrow> Cut s [c] = (s, [], False)"
  by (simp add: Cut_def Index_None)

lemma Cut_found: "c \<notin> set h \<Longrightarrow> Cut (h @ c # b) [c] = (h, b, True)"
  by (simp add: Cut_def Index_Some)

lemma HasPrefix_iff: "HasPrefix s p \<longleftrightarrow> (\<exists>r. s = p @ r)"
proof
  assume "HasPrefix s p"
  then have "s = p @ drop (length p) s"
    by (metis HasPrefix_def append_take_drop_id)
  then show "\<exists>r. s = p @ r" ..
next
  assume "\<exists>r. s = p @ r"
  then show "HasPrefix s p" by (auto simp: HasPrefix_def)
qed

lemma TrimPrefix_append: "TrimPrefix (p @ r) p = r"
  by (simp add: TrimPrefix_def HasPrefix_def)

lemma list_all_dropWhile: "list_all P xs \<Longrightarrow> list_all P (dropWhile Q xs)"
  by (induction xs) auto

lemma list_all_strip: "list_all P x \<Longrightarrow> list_all P (strip x)"
  by (simp add: strip_def list_all_dropWhile)

lemma TrimSpace_ascii:
  assumes "list_all isASCII x"
  shows "TrimSpace u x = strip x"
proof (cases "dropWhile asciiSpace x")
  case Nil
  show ?thesis unfolding TrimSpace_def strip_def Let_def Nil by simp
next
  case (Cons c t)
  have a: "list_all isASCII (dropWhile asciiSpace x)"
    using assms by (rule list_all_dropWhile)
  with Cons have c: "isASCII c" by simp
  have "list_all isASCII (strip x)" using assms by (rule list_all_strip)
  then have "strip x \<noteq> [] \<Longrightarrow> isASCII (last (strip x))"
    by (simp add: list_all_iff)
  then show ?thesis
    using Cons c by (auto simp: TrimSpace_def strip_def Let_def)
qed

lemma ToLower_ascii: "list_all isASCII x \<Longrightarrow> ToLower u x = map lowerByte x"
  by (simp add: ToLower_def)

lemma asciiSpace_le: "asciiSpace c \<Longrightarrow> (of_char c :: nat) \<le> 32"
  by (auto simp: asciiSpace_def)

lemma isUpper_lowerByte: "isUpper c \<Longrightarrow> (of_char (lowerByte c) :: nat) = of_char c + 32"
  by (simp add: isUpper_def lowerByte_def)

lemma lowerByte_not_upper: "\<not> isUpper (lowerByte c)"
proof (cases "isUpper c")
  case True
  from isUpper_lowerByte [OF True] True show ?thesis by (simp add: isUpper_def)
next
  case False
  then show ?thesis by (simp add: lowerByte_def)
qed

lemma asciiSpace_lowerByte: "asciiSpace (lowerByte c) = asciiSpace c"
proof (cases "isUpper c")
  case True
  have "\<not> asciiSpace c" using asciiSpace_le [of c] True by (auto simp: isUpper_def)
  moreover have "\<not> asciiSpace (lowerByte c)"
    using asciiSpace_le [of "lowerByte c"] isUpper_lowerByte [OF True] True
    by (auto simp: isUpper_def)
  ultimately show ?thesis by simp
next
  case False
  then show ?thesis by (simp add: lowerByte_def)
qed

lemma strip_map_lowerByte: "strip (map lowerByte x) = map lowerByte (strip x)"
proof -
  have "asciiSpace \<circ> lowerByte = asciiSpace"
    by (auto simp: asciiSpace_lowerByte)
  then show ?thesis
    by (simp add: strip_def dropWhile_map rev_map)
qed

lemma last_dropWhile: "dropWhile P xs \<noteq> [] \<Longrightarrow> last (dropWhile P xs) = last xs"
  by (induction xs) (auto split: if_splits)

lemma strip_ends:
  assumes "strip x \<noteq> []"
  shows "\<not> asciiSpace (hd (strip x)) \<and> \<not> asciiSpace (last (strip x))"
proof -
  let ?t = "dropWhile asciiSpace x"
  let ?d = "dropWhile asciiSpace (rev ?t)"
  from assms have d: "?d \<noteq> []" by (simp add: strip_def)
  have t: "?t \<noteq> []"
  proof
    assume "?t = []"
    then have "?d = []" by (simp del: dropWhile_eq_Nil_conv)
    with d show False by (simp del: dropWhile_eq_Nil_conv)
  qed
  have "last (strip x) = hd ?d" using d by (simp add: strip_def last_rev)
  moreover have "\<not> asciiSpace (hd ?d)" using d by (rule hd_dropWhile)
  moreover have "hd (strip x) = last ?d" using d by (simp add: strip_def hd_rev)
  moreover have "last ?d = hd ?t" using d t by (simp add: last_dropWhile last_rev)
  moreover have "\<not> asciiSpace (hd ?t)" using t by (rule hd_dropWhile)
  ultimately show ?thesis by simp
qed

lemma command_ascii:
  assumes "list_all isASCII x"
  shows "ToLower u (TrimSpace u x) = map lowerByte (strip x)"
  using assms by (simp add: TrimSpace_ascii ToLower_ascii list_all_strip)

lemma Since_less_iff:
  assumes "minDuration < gap" and "gap \<le> maxDuration"
  shows "Since now t < gap \<longleftrightarrow> \<not> gap \<le> now - t"
  using assms by (auto simp: Since_def Sub_def Let_def)

section \<open>Evaluations at the concrete inputs\<close>

lemma ex_Mention: "Mention 42 = ''<@42>''"
  by code_simp

lemma ex_Mention_1: "Mention 1 = ''<@1>''"
  by code_simp

lemmas ex_defs = ex_session_def ex_msg_def ex_bot_def initial_def ex_settings_def
  ex_edit_def ex_announce_def

lemma ex_bot_valid: "IsValid (TargetGuildID ex_bot)"
  by (simp add: ex_bot_def IsValid_def NullSnowflake_def)

lemma ex_parse_announce:
  "parseCommand no_unicode ex_session ex_bot (ex_msg ''<@1> announce\<newline>X'') =
     Inr (Some \<lparr>Command = ''announce'', Body = ''X''\<rparr>)"
  by code_simp

lemma ex_parse_delete:
  "parseCommand no_unicode ex_session ex_bot (ex_msg ''<@1> Delete\<newline>X'') =
     Inr (Some \<lparr>Command = ''delete'', Body = ''X''\<rparr>)"
  by code_simp

lemma ex_loop:
  "run_loop no_unicode (ex_bot, Map.empty)
      [(GuildCreate, ex_session\<lparr>ans_Channel := Inr 8\<rparr>), (Ready 1, ex_session\<lparr>ans_Channel := Inr 9\<rparr>),
       (ReadySupplemental, ex_session)] =
     (None, [Slog Info ''This bot is online. It is preparing to serve.''], ex_bot, Map.empty)"
  by (simp add: trySubscribe_def ex_bot_valid) (simp add: ex_bot_def)

section \<open>Properties of parseCommand\<close>

lemma parseCommand_Inr: "\<exists>r. parseCommand u s bs msg = Inr r"
  by (simp add: parseCommand_def Let_def split: option.split prod.split)

text \<open>
  C9: \<open>parseCommand\<close> returns a parsed command or \<open>nil\<close> and never an error, for
  every message, state and answer of the session; the loop therefore never logs the
  line of its parse-error branch.
\<close>

theorem parseCommand_error_nil:
  "(\<exists>r. parseCommand u s bs msg = Inr r) \<and>
   Slog Debug ''Bot was unable to parse the command due to an internal error.''
     \<notin> set (fst (run_msg u s bs db msg))"
proof
  show "\<exists>r. parseCommand u s bs msg = Inr r" by (rule parseCommand_Inr)
  show "Slog Debug ''Bot was unable to parse the command due to an internal error.''
     \<notin> set (fst (run_msg u s bs db msg))"
    using parseCommand_Inr [of u s bs msg]
    by (auto simp: run_msg_def run_switch_def run_announce_def run_edit_def sendReply_def
        replyInternalError_def split: option.split prod.split sum.split)
qed

theorem parseCommand_error_nil_witness:
  "parseCommand no_unicode ex_session ex_bot (ex_msg ''<@1> announce\<newline>X'') =
     Inr (Some \<lparr>Command = ''announce'', Body = ''X''\<rparr>) \<and>
   Slog Debug ''Bot was unable to parse the command due to an internal error.''
     \<notin> set (fst (run_msg no_unicode ex_session ex_bot Map.empty
                    (ex_msg ''<@1> announce\<newline>X'')))"
  using parseCommand_error_nil [of no_unicode ex_session ex_bot
      "ex_msg ''<@1> announce\<newline>X''" Map.empty] ex_parse_announce
  by simp

text \<open>
  C5: a message with no member (a direct message), from a guild other than the target
  guild, without the mention flag, or whose author has no role among the allowed roles
  makes \<open>parseCommand\<close> return \<open>nil\<close>; the loop then goes to its next
  iteration with no effect at all and with the bot state and the store unchanged.
\<close>

theorem parseCommand_unqualified:
  assumes "Member msg = None \<or> GuildID msg \<noteq> TargetGuildID bs \<or> \<not> ans_MessageMentions s \<or>
           (\<exists>m. Member msg = Some m \<and> set (RoleIDs m) \<inter> set (AllowedRoleIDs bs) = {})"
  shows "parseCommand u s bs msg = Inr None \<and>
         run_select u (bs, db) (MessageCreate msg, s) = (None, [], bs, db)"
proof -
  have "parseCommand u s bs msg = Inr None"
    using assms by (auto simp: parseCommand_def ContainsFunc_Contains split: option.split)
  then show ?thesis by (simp add: run_msg_def)
qed

theorem parseCommand_unqualified_witness:
  "run_select no_unicode (ex_bot, Map.empty)
     (MessageCreate ((ex_msg ''<@1> announce\<newline>X'')\<lparr>GuildID := 0, Member := None\<rparr>), ex_session) =
     (None, [], ex_bot, Map.empty) \<and>
   run_select no_unicode (ex_bot, Map.empty)
     (MessageCreate ((ex_msg ''<@1> announce\<newline>X'')\<lparr>GuildID := 8\<rparr>), ex_session) =
     (None, [], ex_bot, Map.empty) \<and>
   run_select no_unicode (ex_bot, Map.empty)
     (MessageCreate (ex_msg ''<@1> announce\<newline>X''), ex_session\<lparr>ans_MessageMentions := False\<rparr>) =
     (None, [], ex_bot, Map.empty) \<and>
   run_select no_unicode (ex_bot, Map.empty)
     (MessageCreate ((ex_msg ''<@1> announce\<newline>X'')\<lparr>Member := Some \<lparr>RoleIDs = [3, 4]\<rparr>\<rparr>), ex_session) =
     (None, [], ex_bot, Map.empty)"
proof -
  have a: "Member ((ex_msg ''<@1> announce\<newline>X'')\<lparr>GuildID := 0, Member := None\<rparr>) = None"
    by simp
  have b: "GuildID ((ex_msg ''<@1> announce\<newline>X'')\<lparr>GuildID := 8\<rparr>) \<noteq> TargetGuildID ex_bot"
    by (simp add: ex_bot_def)
  have c: "\<not> ans_MessageMentions (ex_session\<lparr>ans_MessageMentions := False\<rparr>)"
    by simp
  have d: "\<exists>m. Member ((ex_msg ''<@1> announce\<newline>X'')\<lparr>Member := Some \<lparr>RoleIDs = [3, 4]\<rparr>\<rparr>) = Some m \<and>
             set (RoleIDs m) \<inter> set (AllowedRoleIDs ex_bot) = {}"
    by (simp add: ex_bot_def initial_def ex_settings_def)
  show ?thesis
    using parseCommand_unqualified [of _ ex_bot _ no_unicode Map.empty, OF disjI1, OF a]
      parseCommand_unqualified [of _ ex_bot _ no_unicode Map.empty, OF disjI2, OF disjI1, OF b]
      parseCommand_unqualified [of _ ex_bot _ no_unicode Map.empty, OF disjI2, OF disjI2, OF disjI1, OF c]
      parseCommand_unqualified [of _ ex_bot _ no_unicode Map.empty, OF disjI2, OF disjI2, OF disjI2, OF d]
    by simp
qed

lemma parseCommand_authorized:
  assumes "Member msg = Some m" and "GuildID msg = TargetGuildID bs"
    and "ans_MessageMentions s" and "set (RoleIDs m) \<inter> set (AllowedRoleIDs bs) \<noteq> {}"
  shows "parseCommand u s bs msg =
     (case Cut (Content msg) [CHR 0x0A] of
        (header, body, ok) \<Rightarrow>
          if \<not> ok then Inr None
          else if \<not> HasPrefix header (Mention (SelfID bs)) then Inr None
          else
            (let command = ToLower u (TrimSpace u (TrimPrefix header (Mention (SelfID bs))))
             in if command = [] then Inr None
                else if body = [] then Inr None
                else Inr (Some \<lparr>Command = command, Body = body\<rparr>)))"
  using assms by (simp add: parseCommand_def ContainsFunc_Contains)

text \<open>
  C6, as amended: the mention of the bot is \<open>bot.SelfID.Mention()\<close>, that is
  \<open><@\<close>, the identifier in decimal and \<open>>\<close> for a valid identifier, and
  \<open><@>\<close> for the identifiers 0 and \<open>2^64 - 1\<close>. For a message that passes the
  guild, mention and role checks,
  \<open>parseCommand\<close> returns \<open>nil\<close> when the content has no newline, and also when
  the first line does not begin with the mention of the bot; otherwise the command is
  the rest of the first line after that mention, trimmed and lower-cased, the body is
  everything after the first newline, and the result is \<open>nil\<close> exactly when the
  command or the body is empty. For an ASCII first line the command is the stripped
  rest mapped to lower case: it has no upper-case letter, no white space at either end,
  and two first lines that differ only in the case of their letters give the same
  command.
\<close>

theorem parseCommand_format:
  assumes "Member msg = Some m" and "GuildID msg = TargetGuildID bs"
    and "ans_MessageMentions s" and "set (RoleIDs m) \<inter> set (AllowedRoleIDs bs) \<noteq> {}"
  shows
    "Mention (SelfID bs) =
       (if IsValid (SelfID bs) then ''<@'' @ FormatUint (unat (SelfID bs)) @ ''>'' else ''<@>'') \<and>
     (CHR 0x0A \<notin> set (Content msg) \<longrightarrow> parseCommand u s bs msg = Inr None) \<and>
     (\<forall>header body. Content msg = header @ CHR 0x0A # body \<and> CHR 0x0A \<notin> set header \<longrightarrow>
        ((\<nexists>rest. header = Mention (SelfID bs) @ rest) \<longrightarrow> parseCommand u s bs msg = Inr None) \<and>
        (\<forall>rest. header = Mention (SelfID bs) @ rest \<longrightarrow>
           parseCommand u s bs msg =
             (if ToLower u (TrimSpace u rest) = [] \<or> body = [] then Inr None
              else Inr (Some \<lparr>Command = ToLower u (TrimSpace u rest), Body = body\<rparr>)) \<and>
           (list_all isASCII rest \<longrightarrow>
              ToLower u (TrimSpace u rest) = map lowerByte (strip rest) \<and>
              list_all (\<lambda>c. \<not> isUpper c) (ToLower u (TrimSpace u rest)) \<and>
              (ToLower u (TrimSpace u rest) \<noteq> [] \<longrightarrow>
                 \<not> asciiSpace (hd (ToLower u (TrimSpace u rest))) \<and>
                 \<not> asciiSpace (last (ToLower u (TrimSpace u rest)))) \<and>
              (\<forall>rest'. list_all isASCII rest' \<and> map lowerByte rest' = map lowerByte rest \<longrightarrow>
                 ToLower u (TrimSpace u rest') = ToLower u (TrimSpace u rest)))))"
proof -
  note p = parseCommand_authorized [OF assms, of u]
  have 0: "Mention (SelfID bs) =
       (if IsValid (SelfID bs) then ''<@'' @ FormatUint (unat (SelfID bs)) @ ''>'' else ''<@>'')"
    by (simp add: Mention_def Snowflake_String_def)
  have 1: "CHR 0x0A \<notin> set (Content msg) \<longrightarrow> parseCommand u s bs msg = Inr None"
    by (simp add: p Cut_not_found)
  have cut: "Cut (Content msg) [CHR 0x0A] = (header, body, True)"
    if "Content msg = header @ CHR 0x0A # body \<and> CHR 0x0A \<notin> set header" for header body
    using that Cut_found [of "CHR 0x0A" header body] by simp
  have 2: "(\<nexists>rest. header = Mention (SelfID bs) @ rest) \<longrightarrow> parseCommand u s bs msg = Inr None"
    if "Content msg = header @ CHR 0x0A # body \<and> CHR 0x0A \<notin> set header" for header body
    by (simp add: p cut [OF that] HasPrefix_iff)
  have 3: "parseCommand u s bs msg =
             (if ToLower u (TrimSpace u rest) = [] \<or> body = [] then Inr None
              else Inr (Some \<lparr>Command = ToLower u (TrimSpace u rest), Body = body\<rparr>))"
    if "Content msg = header @ CHR 0x0A # body \<and> CHR 0x0A \<notin> set header"
      and "header = Mention (SelfID bs) @ rest" for header body rest
    using that(2) by (simp add: p cut [OF that(1)] HasPrefix_iff TrimPrefix_append Let_def)
  have 4: "ToLower u (TrimSpace u rest) = map lowerByte (strip rest) \<and>
              list_all (\<lambda>c. \<not> isUpper c) (ToLower u (TrimSpace u rest)) \<and>
              (ToLower u (TrimSpace u rest) \<noteq> [] \<longrightarrow>
                 \<not> asciiSpace (hd (ToLower u (TrimSpace u rest))) \<and>
                 \<not> asciiSpace (last (ToLower u (TrimSpace u rest)))) \<and>
              (\<forall>rest'. list_all isASCII rest' \<and> map lowerByte rest' = map lowerByte rest \<longrightarrow>
                 ToLower u (TrimSpace u rest') = ToLower u (TrimSpace u rest))"
    if a: "list_all isASCII rest" for rest
  proof -
    have c: "ToLower u (TrimSpace u rest) = map lowerByte (strip rest)"
      using a by (rule command_ascii)
    have up: "list_all (\<lambda>c. \<not> isUpper c) (map lowerByte (strip rest))"
      by (simp add: list_all_iff lowerByte_not_upper)
    have ends: "map lowerByte (strip rest) \<noteq> [] \<longrightarrow>
        \<not> asciiSpace (hd (map lowerByte (strip rest))) \<and>
        \<not> asciiSpace (last (map lowerByte (strip rest)))"
      using strip_ends [of rest] by (simp add: hd_map last_map asciiSpace_lowerByte)
    have ci: "\<forall>rest'. list_all isASCII rest' \<and> map lowerByte rest' = map lowerByte rest \<longrightarrow>
        ToLower u (TrimSpace u rest') = map lowerByte (strip rest)"
      by (metis command_ascii strip_map_lowerByte)
    show ?thesis unfolding c by (intro conjI refl up ends ci)
  qed
  show ?thesis
  proof (rule conjI [OF 0], rule conjI [OF 1], intro allI impI)
    fix header body
    assume h: "Content msg = header @ CHR 0x0A # body \<and> CHR 0x0A \<notin> set header"
    show "((\<nexists>rest. header = Mention (SelfID bs) @ rest) \<longrightarrow> parseCommand u s bs msg = Inr None) \<and>
        (\<forall>rest. header = Mention (SelfID bs) @ rest \<longrightarrow>
           parseCommand u s bs msg =
             (if ToLower u (TrimSpace u rest) = [] \<or> body = [] then Inr None
              else Inr (Some \<lparr>Command = ToLower u (TrimSpace u rest), Body = body\<rparr>)) \<and>
           (list_all isASCII rest \<longrightarrow>
              ToLower u (TrimSpace u rest) = map lowerByte (strip rest) \<and>
              list_all (\<lambda>c. \<not> isUpper c) (ToLower u (TrimSpace u rest)) \<and>
              (ToLower u (TrimSpace u rest) \<noteq> [] \<longrightarrow>
                 \<not> asciiSpace (hd (ToLower u (TrimSpace u rest))) \<and>
                 \<not> asciiSpace (last (ToLower u (TrimSpace u rest)))) \<and>
              (\<forall>rest'. list_all isASCII rest' \<and> map lowerByte rest' = map lowerByte rest \<longrightarrow>
                 ToLower u (TrimSpace u rest') = ToLower u (TrimSpace u rest))))"
    proof (rule conjI [OF 2 [OF h]], intro allI impI)
      fix rest
      assume r: "header = Mention (SelfID bs) @ rest"
      show "parseCommand u s bs msg =
             (if ToLower u (TrimSpace u rest) = [] \<or> body = [] then Inr None
              else Inr (Some \<lparr>Command = ToLower u (TrimSpace u rest), Body = body\<rparr>)) \<and>
           (list_all isASCII rest \<longrightarrow>
              ToLower u (TrimSpace u rest) = map lowerByte (strip rest) \<and>
              list_all (\<lambda>c. \<not> isUpper c) (ToLower u (TrimSpace u rest)) \<and>
              (ToLower u (TrimSpace u rest) \<noteq> [] \<longrightarrow>
                 \<not> asciiSpace (hd (ToLower u (TrimSpace u rest))) \<and>
                 \<not> asciiSpace (last (ToLower u (TrimSpace u rest)))) \<and>
              (\<forall>rest'. list_all isASCII rest' \<and> map lowerByte rest' = map lowerByte rest \<longrightarrow>
                 ToLower u (TrimSpace u rest') = ToLower u (TrimSpace u rest)))"
        by (rule conjI [OF 3 [OF h r]], rule impI, erule 4)
    qed
  qed
qed

theorem parseCommand_format_witness:
  "parseCommand no_unicode ex_session ex_bot (ex_msg ''<@1> ANNOUNCE'') = Inr None \<and>
   parseCommand no_unicode ex_session ex_bot (ex_msg ''announce <@1>\<newline>X'') = Inr None \<and>
   parseCommand no_unicode ex_session ex_bot (ex_msg ''<@1> ANNOUNCE\<newline>X'') =
     Inr (Some \<lparr>Command = ''announce'', Body = ''X''\<rparr>) \<and>
   parseCommand no_unicode ex_session ex_bot (ex_msg ''<@1> announce\<newline>X'') =
     Inr (Some \<lparr>Command = ''announce'', Body = ''X''\<rparr>) \<and>
   ToLower no_unicode (TrimSpace no_unicode '' ANNOUNCE'') =
     ToLower no_unicode (TrimSpace no_unicode '' announce'') \<and>
   Mention (SelfID ex_bot) = ''<@1>'' \<and>
   Mention (SelfID (ex_bot\<lparr>SelfID := 0\<rparr>)) = ''<@>'' \<and>
   parseCommand no_unicode ex_session (ex_bot\<lparr>SelfID := 0\<rparr>) (ex_msg ''<@> announce\<newline>X'') =
     Inr (Some \<lparr>Command = ''announce'', Body = ''X''\<rparr>) \<and>
   parseCommand no_unicode ex_session (ex_bot\<lparr>SelfID := 0\<rparr>) (ex_msg ''<@0> announce\<newline>X'') =
     Inr None"
proof -
  have a: "Member (ex_msg c) = Some \<lparr>RoleIDs = [3, 5]\<rparr>" for c
    by (simp add: ex_msg_def)
  have b: "GuildID (ex_msg c) = TargetGuildID ex_bot" for c
    by (simp add: ex_msg_def ex_bot_def)
  have c: "ans_MessageMentions ex_session"
    by (simp add: ex_session_def)
  have d: "set (RoleIDs \<lparr>RoleIDs = [3, 5]\<rparr>) \<inter> set (AllowedRoleIDs ex_bot) \<noteq> {}"
    by (simp add: ex_bot_def initial_def ex_settings_def)
  have m: "Mention (SelfID ex_bot) = ''<@1>''"
    by (simp add: ex_bot_def ex_Mention_1)
  have l: "map lowerByte '' announce'' = map lowerByte '' ANNOUNCE''"
    by code_simp
  have i: "list_all isASCII '' ANNOUNCE''" "list_all isASCII '' announce''"
    by code_simp+
  have e: "ToLower no_unicode (TrimSpace no_unicode '' announce'') = ''announce''"
    by code_simp
  note t = parseCommand_format [OF a b c d, of _ no_unicode, THEN conjunct2]
  have b0: "GuildID (ex_msg c) = TargetGuildID (ex_bot\<lparr>SelfID := 0\<rparr>)" for c
    by (simp add: ex_msg_def ex_bot_def)
  have d0: "set (RoleIDs \<lparr>RoleIDs = [3, 5]\<rparr>) \<inter> set (AllowedRoleIDs (ex_bot\<lparr>SelfID := 0\<rparr>)) \<noteq> {}"
    by (simp add: ex_bot_def initial_def ex_settings_def)
  have v0: "\<not> IsValid (SelfID (ex_bot\<lparr>SelfID := 0\<rparr>))"
    by (simp add: IsValid_def)
  note z = parseCommand_format [OF a b0 c d0, of _ no_unicode]
  have m0: "Mention (SelfID (ex_bot\<lparr>SelfID := 0\<rparr>)) = ''<@>''"
    using z [THEN conjunct1] v0 by simp
  have n7: "Content (ex_msg ''<@> announce\<newline>X'') = ''<@> announce'' @ CHR 0x0A # ''X'' \<and>
      CHR 0x0A \<notin> set ''<@> announce''"
    by (simp add: ex_msg_def)
  have r7: "''<@> announce'' = Mention (SelfID (ex_bot\<lparr>SelfID := 0\<rparr>)) @ '' announce''"
    unfolding m0 by simp
  note t7 = z [THEN conjunct2, THEN conjunct2, rule_format, OF n7, THEN conjunct2, rule_format, OF r7]
  have 7: "parseCommand no_unicode ex_session (ex_bot\<lparr>SelfID := 0\<rparr>) (ex_msg ''<@> announce\<newline>X'') =
     Inr (Some \<lparr>Command = ''announce'', Body = ''X''\<rparr>)"
    using t7 [THEN conjunct1] unfolding e by simp
  have n8: "Content (ex_msg ''<@0> announce\<newline>X'') = ''<@0> announce'' @ CHR 0x0A # ''X'' \<and>
      CHR 0x0A \<notin> set ''<@0> announce''"
    by (simp add: ex_msg_def)
  have q8: "\<nexists>rest. ''<@0> announce'' = Mention (SelfID (ex_bot\<lparr>SelfID := 0\<rparr>)) @ rest"
    unfolding m0 by simp
  have 8: "parseCommand no_unicode ex_session (ex_bot\<lparr>SelfID := 0\<rparr>) (ex_msg ''<@0> announce\<newline>X'') =
     Inr None"
    by (rule z [THEN conjunct2, THEN conjunct2, rule_format, OF n8, THEN conjunct1, rule_format, OF q8])
  have n1: "CHR 0x0A \<notin> set (Content (ex_msg ''<@1> ANNOUNCE''))"
    by (simp add: ex_msg_def)
  have 1: "parseCommand no_unicode ex_session ex_bot (ex_msg ''<@1> ANNOUNCE'') = Inr None"
    by (rule t [THEN conjunct1, rule_format, OF n1])
  have n2: "Content (ex_msg ''announce <@1>\<newline>X'') = ''announce <@1>'' @ CHR 0x0A # ''X'' \<and>
      CHR 0x0A \<notin> set ''announce <@1>''"
    by (simp add: ex_msg_def)
  have q: "\<nexists>rest. ''announce <@1>'' = Mention (SelfID ex_bot) @ rest"
    by (simp add: m)
  have 2: "parseCommand no_unicode ex_session ex_bot (ex_msg ''announce <@1>\<newline>X'') = Inr None"
    by (rule t [THEN conjunct2, rule_format, OF n2, THEN conjunct1, rule_format, OF q])
  have n3: "Content (ex_msg ''<@1> ANNOUNCE\<newline>X'') = ''<@1> ANNOUNCE'' @ CHR 0x0A # ''X'' \<and>
      CHR 0x0A \<notin> set ''<@1> ANNOUNCE''"
    by (simp add: ex_msg_def)
  have r3: "''<@1> ANNOUNCE'' = Mention (SelfID ex_bot) @ '' ANNOUNCE''"
    by (simp add: m)
  note t3 = t [THEN conjunct2, rule_format, OF n3, THEN conjunct2, rule_format, OF r3]
  have 3: "ToLower no_unicode (TrimSpace no_unicode '' announce'') =
     ToLower no_unicode (TrimSpace no_unicode '' ANNOUNCE'')"
    by (rule t3 [THEN conjunct2, rule_format, OF i(1), THEN conjunct2, THEN conjunct2,
          THEN conjunct2, rule_format, OF conjI [OF i(2) l]])
  have n4: "Content (ex_msg ''<@1> announce\<newline>X'') = ''<@1> announce'' @ CHR 0x0A # ''X'' \<and>
      CHR 0x0A \<notin> set ''<@1> announce''"
    by (simp add: ex_msg_def)
  have r4: "''<@1> announce'' = Mention (SelfID ex_bot) @ '' announce''"
    by (simp add: m)
  note t4 = t [THEN conjunct2, rule_format, OF n4, THEN conjunct2, rule_format, OF r4]
  have u: "ToLower no_unicode (TrimSpace no_unicode '' ANNOUNCE'') = ''announce''"
    unfolding 3 [symmetric] by (rule e)
  have 4: "parseCommand no_unicode ex_session ex_bot (ex_msg ''<@1> ANNOUNCE\<newline>X'') =
     Inr (Some \<lparr>Command = ''announce'', Body = ''X''\<rparr>)"
    using t3 [THEN conjunct1] unfolding u by simp
  have 5: "parseCommand no_unicode ex_session ex_bot (ex_msg ''<@1> announce\<newline>X'') =
     Inr (Some \<lparr>Command = ''announce'', Body = ''X''\<rparr>)"
    using t4 [THEN conjunct1] unfolding e by simp
  have 6: "ToLower no_unicode (TrimSpace no_unicode '' ANNOUNCE'') =
     ToLower no_unicode (TrimSpace no_unicode '' announce'')"
    using 3 by (rule sym)
  from 1 2 4 5 6 m m0 7 8 show ?thesis by (intro conjI)
qed

text \<open>
  C6 as stated fails: the message below passes the guild, mention and role checks, its
  content has a newline, and both the first line with the mention prefix trimmed
  (there is none to trim) and the body are non-empty, yet \<open>parseCommand\<close> returns
  \<open>nil\<close>, because the first line does not begin with the mention.
\<close>

theorem parseCommand_format_counterexample:
  "Member (ex_msg ''announce <@1>\<newline>X'') = Some \<lparr>RoleIDs = [3, 5]\<rparr> \<and>
   GuildID (ex_msg ''announce <@1>\<newline>X'') = TargetGuildID ex_bot \<and>
   ans_MessageMentions ex_session \<and>
   ContainsFunc [3, 5] (\<lambda>id. Contains (AllowedRoleIDs ex_bot) id) \<and>
   Cut (Content (ex_msg ''announce <@1>\<newline>X'')) [CHR 0x0A] = (''announce <@1>'', ''X'', True) \<and>
   ToLower no_unicode
     (TrimSpace no_unicode (TrimPrefix ''announce <@1>'' (Mention (SelfID ex_bot)))) =
     ''announce <@1>'' \<and>
   parseCommand no_unicode ex_session ex_bot (ex_msg ''announce <@1>\<newline>X'') = Inr None"
proof -
  have 1: "ContainsFunc [3, 5] (\<lambda>id. Contains (AllowedRoleIDs ex_bot) id)"
    by (simp add: ex_bot_def initial_def ex_settings_def)
  have 2: "Cut (Content (ex_msg ''announce <@1>\<newline>X'')) [CHR 0x0A] = (''announce <@1>'', ''X'', True)"
    by code_simp
  have 3: "ToLower no_unicode
     (TrimSpace no_unicode (TrimPrefix ''announce <@1>'' (Mention (SelfID ex_bot)))) =
     ''announce <@1>''"
    by code_simp
  have 4: "parseCommand no_unicode ex_session ex_bot (ex_msg ''announce <@1>\<newline>X'') = Inr None"
    by code_simp
  from 1 2 3 4 show ?thesis
    by (simp add: ex_msg_def ex_bot_def ex_session_def)
qed

section \<open>Properties of the dispatch\<close>

lemma sendReply_no_edit: "EditMessage ch m b \<notin> set (sendReply s ev content)"
  by (simp add: sendReply_def split: option.split)

lemma sendReply_no_store: "Store a m \<notin> set (sendReply s ev content)"
  by (simp add: sendReply_def split: option.split)

lemma sendReply_no_send: "SendMessage ch b \<notin> set (sendReply s ev content)"
  by (simp add: sendReply_def split: option.split)

lemma run_edit_other_author:
  "b \<noteq> AuthorID ev \<Longrightarrow> fst (run_edit s bs (db(b \<mapsto> x)) ev c) = fst (run_edit s bs db ev c)"
  by (simp add: run_edit_def split: option.split)

lemma run_edit_state: "snd (run_edit s bs db ev c) = (bs, db)"
  by (simp add: run_edit_def split: option.split)

lemma run_edit_effects:
  "x \<in> set (fst (run_edit s bs db ev c)) \<Longrightarrow>
     (\<forall>a m. x \<noteq> Store a m) \<and> (\<forall>ch b. x \<noteq> SendMessage ch b)"
  by (auto simp: run_edit_def sendReply_def replyInternalError_def split: option.splits)

lemma run_announce_limited:
  "Since (ans_Since s) (LastAnnouncedTime bs) < MinAnnounceTimeGap bs \<Longrightarrow>
     run_announce s bs db ev c =
       (sendReply s ev ''please wait before sending another announcement.'', bs, db)"
  by (simp add: run_announce_def)

lemma run_announce_allowed:
  "\<not> Since (ans_Since s) (LastAnnouncedTime bs) < MinAnnounceTimeGap bs \<Longrightarrow>
     \<exists>rest bs' db'. run_announce s bs db ev c =
       (SendMessage (TargetChannelID bs) (Body c) # rest, bs', db')"
  by (simp add: run_announce_def split: sum.split)

text \<open>
  C8: a parsed command whose command string is neither \<open>announce\<close> nor
  \<open>edit\<close> falls through the switch: no reply, no message sent or edited, no call on
  the store, and the bot state and the store unchanged. The only trace of the message is
  the log line written before the switch.
\<close>

theorem unknown_command_noop:
  assumes "parseCommand u s bs ev = Inr (Some c)"
    and "Command c \<noteq> ''announce''" and "Command c \<noteq> ''edit''"
  shows "run_switch s bs db ev c = ([], bs, db) \<and>
         run_select u (bs, db) (MessageCreate ev, s) =
           (None, [Slog Info ''This bot has received a valid command.''], bs, db)"
  using assms by (simp add: run_msg_def run_switch_def)

theorem unknown_command_noop_witness:
  "parseCommand no_unicode ex_session ex_bot (ex_msg ''<@1> Delete\<newline>X'') =
     Inr (Some \<lparr>Command = ''delete'', Body = ''X''\<rparr>) \<and>
   run_switch ex_session ex_bot Map.empty (ex_msg ''<@1> Delete\<newline>X'')
     \<lparr>Command = ''delete'', Body = ''X''\<rparr> = ([], ex_bot, Map.empty) \<and>
   run_select no_unicode (ex_bot, Map.empty) (MessageCreate (ex_msg ''<@1> Delete\<newline>X''), ex_session) =
     (None, [Slog Info ''This bot has received a valid command.''], ex_bot, Map.empty)"
  using unknown_command_noop [OF ex_parse_delete, of Map.empty] ex_parse_delete
  by simp

text \<open>
  C2: for a minimum gap that is a \<open>time.Duration\<close> other than the least one, an
  announce command gets the wait reply (and nothing else happens) exactly when
  \<open>now - LastAnnouncedTime < MinAnnounceTimeGap\<close>, and the send is attempted exactly
  when \<open>now - LastAnnouncedTime \<ge> MinAnnounceTimeGap\<close>. With a gap of four hours,
  after an announce whose send succeeded at \<open>t0\<close>, an announce at
  \<open>t0 + 3h59m\<close> gets the wait reply and one at \<open>t0 + 4h\<close> is sent.
\<close>

theorem announce_rate_limit:
  assumes "Command c = ''announce''"
    and "minDuration < MinAnnounceTimeGap bs" and "MinAnnounceTimeGap bs \<le> maxDuration"
  shows
    "(run_switch s bs db ev c =
        (sendReply s ev ''please wait before sending another announcement.'', bs, db))
       = (\<not> MinAnnounceTimeGap bs \<le> ans_Since s - LastAnnouncedTime bs) \<and>
     (SendMessage (TargetChannelID bs) (Body c) \<in> set (fst (run_switch s bs db ev c)))
       = (MinAnnounceTimeGap bs \<le> ans_Since s - LastAnnouncedTime bs) \<and>
     (\<forall>t0 target fx1 bs1 db1 s2 ev2 c2.
        MinAnnounceTimeGap bs = 4 * Hour \<and> Command c2 = ''announce'' \<and>
        MinAnnounceTimeGap bs \<le> ans_Since s - LastAnnouncedTime bs \<and>
        ans_SendMessage s = Inr target \<and> ans_Now s = t0 \<and>
        run_switch s bs db ev c = (fx1, bs1, db1) \<longrightarrow>
        (ans_Since s2 = t0 + 3 * Hour + 59 * Minute \<longrightarrow>
           run_switch s2 bs1 db1 ev2 c2 =
             (sendReply s2 ev2 ''please wait before sending another announcement.'', bs1, db1)) \<and>
        (ans_Since s2 = t0 + 4 * Hour \<longrightarrow>
           SendMessage (TargetChannelID bs) (Body c2) \<in> set (fst (run_switch s2 bs1 db1 ev2 c2))))"
proof -
  have sw: "\<And>s bs db ev. run_switch s bs db ev c = run_announce s bs db ev c"
    using assms(1) by (simp add: run_switch_def)
  note lim = Since_less_iff [OF assms(2,3), of "ans_Since s" "LastAnnouncedTime bs"]
  have 1: "(run_announce s bs db ev c =
        (sendReply s ev ''please wait before sending another announcement.'', bs, db))
       = (\<not> MinAnnounceTimeGap bs \<le> ans_Since s - LastAnnouncedTime bs)"
  proof (cases "Since (ans_Since s) (LastAnnouncedTime bs) < MinAnnounceTimeGap bs")
    case True
    then show ?thesis using lim run_announce_limited by simp
  next
    case False
    from run_announce_allowed [OF False, of db ev c] obtain rest bs' db'
      where "run_announce s bs db ev c = (SendMessage (TargetChannelID bs) (Body c) # rest, bs', db')"
      by blast
    then show ?thesis using False lim by (simp add: sendReply_def)
  qed
  have 2: "(SendMessage (TargetChannelID bs) (Body c) \<in> set (fst (run_announce s bs db ev c)))
       = (MinAnnounceTimeGap bs \<le> ans_Since s - LastAnnouncedTime bs)"
  proof (cases "Since (ans_Since s) (LastAnnouncedTime bs) < MinAnnounceTimeGap bs")
    case True
    then show ?thesis using lim run_announce_limited [OF True] sendReply_no_send by simp
  next
    case False
    from run_announce_allowed [OF False, of db ev c] obtain rest bs' db'
      where "run_announce s bs db ev c = (SendMessage (TargetChannelID bs) (Body c) # rest, bs', db')"
      by blast
    then show ?thesis using False lim by simp
  qed
  have 3: "\<forall>t0 target fx1 bs1 db1 s2 ev2 c2.
        MinAnnounceTimeGap bs = 4 * Hour \<and> Command c2 = ''announce'' \<and>
        MinAnnounceTimeGap bs \<le> ans_Since s - LastAnnouncedTime bs \<and>
        ans_SendMessage s = Inr target \<and> ans_Now s = t0 \<and>
        run_announce s bs db ev c = (fx1, bs1, db1) \<longrightarrow>
        (ans_Since s2 = t0 + 3 * Hour + 59 * Minute \<longrightarrow>
           run_switch s2 bs1 db1 ev2 c2 =
             (sendReply s2 ev2 ''please wait before sending another announcement.'', bs1, db1)) \<and>
        (ans_Since s2 = t0 + 4 * Hour \<longrightarrow>
           SendMessage (TargetChannelID bs) (Body c2) \<in> set (fst (run_switch s2 bs1 db1 ev2 c2)))"
  proof (intro allI impI)
    fix t0 target fx1 bs1 db1 s2 ev2 and c2 :: parsedCommand
    assume h: "MinAnnounceTimeGap bs = 4 * Hour \<and> Command c2 = ''announce'' \<and>
        MinAnnounceTimeGap bs \<le> ans_Since s - LastAnnouncedTime bs \<and>
        ans_SendMessage s = Inr target \<and> ans_Now s = t0 \<and>
        run_announce s bs db ev c = (fx1, bs1, db1)"
    then have "\<not> Since (ans_Since s) (LastAnnouncedTime bs) < MinAnnounceTimeGap bs"
      using lim by simp
    with h have bs1: "bs1 = bs\<lparr>LastAnnouncedTime := t0\<rparr>"
      by (auto simp: run_announce_def)
    have sw2: "run_switch s2 bs1 db1 ev2 c2 = run_announce s2 bs1 db1 ev2 c2"
      using h by (simp add: run_switch_def)
    have a: "ans_Since s2 = t0 + 3 * Hour + 59 * Minute \<longrightarrow>
           run_announce s2 bs1 db1 ev2 c2 =
             (sendReply s2 ev2 ''please wait before sending another announcement.'', bs1, db1)"
      using h bs1
      by (auto intro!: run_announce_limited
          simp: Since_def Sub_def Hour_def Minute_def maxDuration_def minDuration_def)
    have b: "ans_Since s2 = t0 + 4 * Hour \<longrightarrow>
           SendMessage (TargetChannelID bs) (Body c2) \<in> set (fst (run_announce s2 bs1 db1 ev2 c2))"
    proof
      assume "ans_Since s2 = t0 + 4 * Hour"
      then have "\<not> Since (ans_Since s2) (LastAnnouncedTime bs1) < MinAnnounceTimeGap bs1"
        using h bs1 by (simp add: Since_def Sub_def Hour_def maxDuration_def minDuration_def)
      from run_announce_allowed [OF this, of db1 ev2 c2] bs1
      show "SendMessage (TargetChannelID bs) (Body c2) \<in> set (fst (run_announce s2 bs1 db1 ev2 c2))"
        by auto
    qed
    from a b show "(ans_Since s2 = t0 + 3 * Hour + 59 * Minute \<longrightarrow>
           run_switch s2 bs1 db1 ev2 c2 =
             (sendReply s2 ev2 ''please wait before sending another announcement.'', bs1, db1)) \<and>
        (ans_Since s2 = t0 + 4 * Hour \<longrightarrow>
           SendMessage (TargetChannelID bs) (Body c2) \<in> set (fst (run_switch s2 bs1 db1 ev2 c2)))"
      unfolding sw2 by simp
  qed
  from 1 2 3 show ?thesis unfolding sw by blast
qed

theorem announce_rate_limit_witness:
  "minDuration < 4 * Hour \<and> 4 * Hour \<le> maxDuration \<and>
   run_switch (ex_session\<lparr>ans_Since := 1000 * Hour + 3 * Hour + 59 * Minute\<rparr>)
      (ex_bot\<lparr>LastAnnouncedTime := 1000 * Hour\<rparr>) Map.empty
      (ex_msg ''<@1> announce\<newline>X'') ex_announce =
     ([SendMessageReply 200 ''<@42>, please wait before sending another announcement.'' 900],
      ex_bot\<lparr>LastAnnouncedTime := 1000 * Hour\<rparr>, Map.empty) \<and>
   SendMessage 100 ''X'' \<in> set (fst (run_switch (ex_session\<lparr>ans_Since := 1000 * Hour + 4 * Hour\<rparr>)
      (ex_bot\<lparr>LastAnnouncedTime := 1000 * Hour\<rparr>) Map.empty
      (ex_msg ''<@1> announce\<newline>X'') ex_announce))"
proof -
  have c: "Command ex_announce = ''announce''"
    by (simp add: ex_announce_def)
  have lo: "minDuration < MinAnnounceTimeGap (ex_bot\<lparr>LastAnnouncedTime := 1000 * Hour\<rparr>)"
    by (simp add: ex_defs Hour_def minDuration_def)
  have hi: "MinAnnounceTimeGap (ex_bot\<lparr>LastAnnouncedTime := 1000 * Hour\<rparr>) \<le> maxDuration"
    by (simp add: ex_defs Hour_def maxDuration_def)
  have g: "MinAnnounceTimeGap (ex_bot\<lparr>LastAnnouncedTime := 1000 * Hour\<rparr>) = 4 * Hour"
    by (simp add: ex_defs)
  note t = announce_rate_limit [OF c lo hi, of _ Map.empty "ex_msg ''<@1> announce\<newline>X''"]
  have 1: "run_switch (ex_session\<lparr>ans_Since := 1000 * Hour + 3 * Hour + 59 * Minute\<rparr>)
      (ex_bot\<lparr>LastAnnouncedTime := 1000 * Hour\<rparr>) Map.empty
      (ex_msg ''<@1> announce\<newline>X'') ex_announce =
     (sendReply (ex_session\<lparr>ans_Since := 1000 * Hour + 3 * Hour + 59 * Minute\<rparr>)
        (ex_msg ''<@1> announce\<newline>X'') ''please wait before sending another announcement.'',
      ex_bot\<lparr>LastAnnouncedTime := 1000 * Hour\<rparr>, Map.empty)"
    unfolding t [THEN conjunct1] by (simp add: ex_defs Hour_def Minute_def)
  have 2: "SendMessage (TargetChannelID (ex_bot\<lparr>LastAnnouncedTime := 1000 * Hour\<rparr>)) (Body ex_announce)
     \<in> set (fst (run_switch (ex_session\<lparr>ans_Since := 1000 * Hour + 4 * Hour\<rparr>)
      (ex_bot\<lparr>LastAnnouncedTime := 1000 * Hour\<rparr>) Map.empty
      (ex_msg ''<@1> announce\<newline>X'') ex_announce))"
    unfolding t [THEN conjunct2, THEN conjunct1] by (simp add: ex_defs Hour_def)
  have 3: "minDuration < 4 * Hour \<and> 4 * Hour \<le> maxDuration"
    using lo hi by (simp add: g)
  have s: "sendReply (ex_session\<lparr>ans_Since := 1000 * Hour + 3 * Hour + 59 * Minute\<rparr>)
        (ex_msg ''<@1> announce\<newline>X'') ''please wait before sending another announcement.'' =
     [SendMessageReply 200 ''<@42>, please wait before sending another announcement.'' 900]"
    by (simp add: sendReply_def ex_session_def ex_msg_def ex_Mention)
  have b: "TargetChannelID (ex_bot\<lparr>LastAnnouncedTime := 1000 * Hour\<rparr>) = 100" "Body ex_announce = ''X''"
    by (simp_all add: ex_defs)
  from 1 2 3 show ?thesis unfolding s b by simp
qed

text \<open>
  C4: an announce command that passes the rate limit. If the send fails, the log line
  and the internal-error reply follow, the state and the store are unchanged and
  \<open>Store\<close> is not called. If the send succeeds, \<open>LastAnnouncedTime\<close> becomes the
  clock reading taken after the send, the acknowledgment is sent, and then
  \<open>Store\<close> is called with the author and the identifier of the sent message; when
  \<open>Store\<close> fails a warning is logged, the store keeps its contents and the new
  \<open>LastAnnouncedTime\<close> stays.
\<close>

theorem announce_dispatch:
  assumes "Command c = ''announce''"
    and "\<not> Since (ans_Since s) (LastAnnouncedTime bs) < MinAnnounceTimeGap bs"
  shows
    "(\<forall>e. ans_SendMessage s = Inl e \<longrightarrow>
        run_switch s bs db ev c =
          (SendMessage (TargetChannelID bs) (Body c) #
           Slog Error ''Bot has failed to send the announcement message.'' #
           replyInternalError s ev, bs, db) \<and>
        (\<forall>a m. Store a m \<notin> set (fst (run_switch s bs db ev c)))) \<and>
     (\<forall>target. ans_SendMessage s = Inr target \<longrightarrow>
        (\<exists>logged db'.
           run_switch s bs db ev c =
             (SendMessage (TargetChannelID bs) (Body c) #
              sendReply s ev ''the announcement has been sent.'' @
              Store (AuthorID ev) target # logged,
              bs\<lparr>LastAnnouncedTime := ans_Now s\<rparr>, db') \<and>
           (ans_Store s = None \<longrightarrow> logged = [] \<and> db' = db(AuthorID ev \<mapsto> target)) \<and>
           (\<forall>e. ans_Store s = Some e \<longrightarrow>
              logged = [Slog Warn ''Bot has failed to store the last message sent by the author.''] \<and>
              db' = db)))"
proof -
  have sw: "run_switch s bs db ev c = run_announce s bs db ev c"
    using assms(1) by (simp add: run_switch_def)
  have 1: "\<forall>e. ans_SendMessage s = Inl e \<longrightarrow>
        run_announce s bs db ev c =
          (SendMessage (TargetChannelID bs) (Body c) #
           Slog Error ''Bot has failed to send the announcement message.'' #
           replyInternalError s ev, bs, db) \<and>
        (\<forall>a m. Store a m \<notin> set (fst (run_announce s bs db ev c)))"
    using assms(2) by (simp add: run_announce_def replyInternalError_def sendReply_no_store)
  have 2: "\<forall>target. ans_SendMessage s = Inr target \<longrightarrow>
        (\<exists>logged db'.
           run_announce s bs db ev c =
             (SendMessage (TargetChannelID bs) (Body c) #
              sendReply s ev ''the announcement has been sent.'' @
              Store (AuthorID ev) target # logged,
              bs\<lparr>LastAnnouncedTime := ans_Now s\<rparr>, db') \<and>
           (ans_Store s = None \<longrightarrow> logged = [] \<and> db' = db(AuthorID ev \<mapsto> target)) \<and>
           (\<forall>e. ans_Store s = Some e \<longrightarrow>
              logged = [Slog Warn ''Bot has failed to store the last message sent by the author.''] \<and>
              db' = db))"
    using assms(2) by (cases "ans_Store s") (simp_all add: run_announce_def)
  from 1 2 show ?thesis unfolding sw by blast
qed

theorem announce_dispatch_witness:
  "run_switch (ex_session\<lparr>ans_SendMessage := Inl (LibErr ''500'')\<rparr>) ex_bot [42 \<mapsto> 554]
      (ex_msg ''<@1> announce\<newline>X'') ex_announce =
     ([SendMessage 100 ''X'', Slog Error ''Bot has failed to send the announcement message.'',
       SendMessageReply 200
         ''<@42>, this bot has encountered an internal error. This error has been logged.'' 900],
      ex_bot, [42 \<mapsto> 554]) \<and>
   run_switch ex_session ex_bot [42 \<mapsto> 554] (ex_msg ''<@1> announce\<newline>X'') ex_announce =
     ([SendMessage 100 ''X'',
       SendMessageReply 200 ''<@42>, the announcement has been sent.'' 900, Store 42 555],
      ex_bot\<lparr>LastAnnouncedTime := 1000 * Hour + 1\<rparr>, [42 \<mapsto> 555]) \<and>
   run_switch (ex_session\<lparr>ans_Store := Some (LibErr ''disk'')\<rparr>) ex_bot [42 \<mapsto> 554]
      (ex_msg ''<@1> announce\<newline>X'') ex_announce =
     ([SendMessage 100 ''X'',
       SendMessageReply 200 ''<@42>, the announcement has been sent.'' 900, Store 42 555,
       Slog Warn ''Bot has failed to store the last message sent by the author.''],
      ex_bot\<lparr>LastAnnouncedTime := 1000 * Hour + 1\<rparr>, [42 \<mapsto> 554])"
proof -
  have c: "Command ex_announce = ''announce''" by (simp add: ex_announce_def)
  have t: "\<not> Since (1000 * Hour) 0 < 4 * Hour"
    by (simp add: Since_def Sub_def Hour_def maxDuration_def minDuration_def)
  have l: "\<And>s. ans_Since s = 1000 * Hour \<Longrightarrow>
      \<not> Since (ans_Since s) (LastAnnouncedTime ex_bot) < MinAnnounceTimeGap ex_bot"
    using t by (simp add: ex_defs)
  show ?thesis
    using announce_dispatch [OF c l, of "ex_session\<lparr>ans_SendMessage := Inl (LibErr ''500'')\<rparr>"
        "[42 \<mapsto> 554]" "ex_msg ''<@1> announce\<newline>X''"]
      announce_dispatch [OF c l, of ex_session "[42 \<mapsto> 554]" "ex_msg ''<@1> announce\<newline>X''"]
      announce_dispatch [OF c l, of "ex_session\<lparr>ans_Store := Some (LibErr ''disk'')\<rparr>"
        "[42 \<mapsto> 554]" "ex_msg ''<@1> announce\<newline>X''"]
      t
    by (simp add: run_switch_def run_announce_def replyInternalError_def sendReply_def
        ex_Mention ex_defs)
qed

text \<open>
  C3: an edit command. A \<open>Load\<close> error gives the internal-error reply and nothing
  more; no record for the author gives the could-not-find reply and no call of
  \<open>EditMessage\<close>; a record gives one call of \<open>EditMessage\<close> on the target channel
  with the stored identifier of that author and the new body, followed by the
  internal-error reply when it fails and by nothing when it succeeds. The records of
  other authors do not matter, and after an announce of the same author whose send and
  \<open>Store\<close> succeeded the edit goes to the message that announce sent.
\<close>

theorem edit_dispatch:
  assumes "Command c = ''edit''"
  shows
    "(\<forall>e. ans_Load s = Some e \<longrightarrow>
        run_switch s bs db ev c =
          (Load (AuthorID ev) #
           Slog Error ''Bots has failed to look up the last message sent by the author.'' #
           replyInternalError s ev, bs, db)) \<and>
     (ans_Load s = None \<and> db (AuthorID ev) = None \<longrightarrow>
        run_switch s bs db ev c =
          (Load (AuthorID ev) #
           sendReply s ev ''this bot could not find the last announcement you sent.'', bs, db) \<and>
        (\<forall>ch m b. EditMessage ch m b \<notin> set (fst (run_switch s bs db ev c)))) \<and>
     (\<forall>lastSent e. ans_Load s = None \<and> db (AuthorID ev) = Some lastSent \<and> ans_EditMessage s = Some e \<longrightarrow>
        run_switch s bs db ev c =
          (Load (AuthorID ev) # EditMessage (TargetChannelID bs) lastSent (Body c) #
           Slog Error ''Bot has failed to edit the last announcement message.'' #
           replyInternalError s ev, bs, db)) \<and>
     (\<forall>lastSent. ans_Load s = None \<and> db (AuthorID ev) = Some lastSent \<and> ans_EditMessage s = None \<longrightarrow>
        run_switch s bs db ev c =
          ([Load (AuthorID ev), EditMessage (TargetChannelID bs) lastSent (Body c)], bs, db)) \<and>
     (\<forall>other x. other \<noteq> AuthorID ev \<longrightarrow>
        fst (run_switch s bs (db(other \<mapsto> x)) ev c) = fst (run_switch s bs db ev c)) \<and>
     (\<forall>s1 ev1 c1 target fx1 bs1 db1.
        Command c1 = ''announce'' \<and> AuthorID ev1 = AuthorID ev \<and>
        ans_SendMessage s1 = Inr target \<and> ans_Store s1 = None \<and>
        \<not> Since (ans_Since s1) (LastAnnouncedTime bs) < MinAnnounceTimeGap bs \<and>
        run_switch s1 bs db ev1 c1 = (fx1, bs1, db1) \<and> ans_Load s = None \<longrightarrow>
        (\<exists>rest. fst (run_switch s bs1 db1 ev c) =
           Load (AuthorID ev) # EditMessage (TargetChannelID bs) target (Body c) # rest \<and>
           (\<forall>ch m b. EditMessage ch m b \<notin> set rest)))"
proof -
  have sw: "\<And>s bs db ev. run_switch s bs db ev c = run_edit s bs db ev c"
    using assms by (simp add: run_switch_def)
  have 1: "\<forall>e. ans_Load s = Some e \<longrightarrow>
        run_edit s bs db ev c =
          (Load (AuthorID ev) #
           Slog Error ''Bots has failed to look up the last message sent by the author.'' #
           replyInternalError s ev, bs, db)"
    by (simp add: run_edit_def)
  have 2: "ans_Load s = None \<and> db (AuthorID ev) = None \<longrightarrow>
        run_edit s bs db ev c =
          (Load (AuthorID ev) #
           sendReply s ev ''this bot could not find the last announcement you sent.'', bs, db) \<and>
        (\<forall>ch m b. EditMessage ch m b \<notin> set (fst (run_edit s bs db ev c)))"
    by (simp add: run_edit_def sendReply_no_edit)
  have 3: "\<forall>lastSent e. ans_Load s = None \<and> db (AuthorID ev) = Some lastSent \<and> ans_EditMessage s = Some e \<longrightarrow>
        run_edit s bs db ev c =
          (Load (AuthorID ev) # EditMessage (TargetChannelID bs) lastSent (Body c) #
           Slog Error ''Bot has failed to edit the last announcement message.'' #
           replyInternalError s ev, bs, db)"
    by (simp add: run_edit_def)
  have 4: "\<forall>lastSent. ans_Load s = None \<and> db (AuthorID ev) = Some lastSent \<and> ans_EditMessage s = None \<longrightarrow>
        run_edit s bs db ev c =
          ([Load (AuthorID ev), EditMessage (TargetChannelID bs) lastSent (Body c)], bs, db)"
    by (simp add: run_edit_def)
  have 5: "\<forall>other x. other \<noteq> AuthorID ev \<longrightarrow>
        fst (run_edit s bs (db(other \<mapsto> x)) ev c) = fst (run_edit s bs db ev c)"
    by (simp add: run_edit_other_author)
  have 6: "\<forall>s1 ev1 c1 target fx1 bs1 db1.
        Command c1 = ''announce'' \<and> AuthorID ev1 = AuthorID ev \<and>
        ans_SendMessage s1 = Inr target \<and> ans_Store s1 = None \<and>
        \<not> Since (ans_Since s1) (LastAnnouncedTime bs) < MinAnnounceTimeGap bs \<and>
        run_switch s1 bs db ev1 c1 = (fx1, bs1, db1) \<and> ans_Load s = None \<longrightarrow>
        (\<exists>rest. fst (run_edit s bs1 db1 ev c) =
           Load (AuthorID ev) # EditMessage (TargetChannelID bs) target (Body c) # rest \<and>
           (\<forall>ch m b. EditMessage ch m b \<notin> set rest))"
  proof (intro allI impI)
    fix s1 ev1 c1 target fx1 bs1 db1
    assume h: "Command c1 = ''announce'' \<and> AuthorID ev1 = AuthorID ev \<and>
        ans_SendMessage s1 = Inr target \<and> ans_Store s1 = None \<and>
        \<not> Since (ans_Since s1) (LastAnnouncedTime bs) < MinAnnounceTimeGap bs \<and>
        run_switch s1 bs db ev1 c1 = (fx1, bs1, db1) \<and> ans_Load s = None"
    then have "run_announce s1 bs db ev1 c1 = (fx1, bs1, db1)"
      by (auto simp: run_switch_def)
    with h have st: "bs1 = bs\<lparr>LastAnnouncedTime := ans_Now s1\<rparr>" "db1 = db(AuthorID ev \<mapsto> target)"
      by (auto simp: run_announce_def)
    show "\<exists>rest. fst (run_edit s bs1 db1 ev c) =
           Load (AuthorID ev) # EditMessage (TargetChannelID bs) target (Body c) # rest \<and>
           (\<forall>ch m b. EditMessage ch m b \<notin> set rest)"
      using h st
      by (cases "ans_EditMessage s")
        (simp_all add: run_edit_def replyInternalError_def sendReply_no_edit)
  qed
  from 1 2 3 4 5 6 show ?thesis unfolding sw by blast
qed

theorem edit_dispatch_witness:
  "run_switch (ex_session\<lparr>ans_Load := Some (LibErr ''io'')\<rparr>) ex_bot [42 \<mapsto> 555]
      (ex_msg ''<@1> edit\<newline>Y'') ex_edit =
     ([Load 42, Slog Error ''Bots has failed to look up the last message sent by the author.'',
       SendMessageReply 200
         ''<@42>, this bot has encountered an internal error. This error has been logged.'' 900],
      ex_bot, [42 \<mapsto> 555]) \<and>
   run_switch ex_session ex_bot [43 \<mapsto> 555] (ex_msg ''<@1> edit\<newline>Y'') ex_edit =
     ([Load 42,
       SendMessageReply 200 ''<@42>, this bot could not find the last announcement you sent.'' 900],
      ex_bot, [43 \<mapsto> 555]) \<and>
   run_switch (ex_session\<lparr>ans_EditMessage := Some (LibErr ''403'')\<rparr>) ex_bot [42 \<mapsto> 555]
      (ex_msg ''<@1> edit\<newline>Y'') ex_edit =
     ([Load 42, EditMessage 100 555 ''Y'',
       Slog Error ''Bot has failed to edit the last announcement message.'',
       SendMessageReply 200
         ''<@42>, this bot has encountered an internal error. This error has been logged.'' 900],
      ex_bot, [42 \<mapsto> 555]) \<and>
   run_switch ex_session ex_bot [42 \<mapsto> 555, 43 \<mapsto> 556] (ex_msg ''<@1> edit\<newline>Y'') ex_edit =
     ([Load 42, EditMessage 100 555 ''Y''], ex_bot, [42 \<mapsto> 555, 43 \<mapsto> 556]) \<and>
   fst (run_switch ex_session
          (fst (snd (run_switch ex_session ex_bot Map.empty (ex_msg ''<@1> announce\<newline>X'') ex_announce)))
          (snd (snd (run_switch ex_session ex_bot Map.empty (ex_msg ''<@1> announce\<newline>X'') ex_announce)))
          (ex_msg ''<@1> edit\<newline>Y'') ex_edit) =
     [Load 42, EditMessage 100 555 ''Y'']"
proof -
  have c: "Command ex_edit = ''edit''" by (simp add: ex_edit_def)
  have t: "\<not> Since (1000 * Hour) 0 < 4 * Hour"
    by (simp add: Since_def Sub_def Hour_def maxDuration_def minDuration_def)
  show ?thesis
    using edit_dispatch [OF c, of "ex_session\<lparr>ans_Load := Some (LibErr ''io'')\<rparr>" ex_bot
        "[42 \<mapsto> 555]" "ex_msg ''<@1> edit\<newline>Y''"]
      edit_dispatch [OF c, of ex_session ex_bot "[43 \<mapsto> 555]" "ex_msg ''<@1> edit\<newline>Y''"]
      edit_dispatch [OF c, of "ex_session\<lparr>ans_EditMessage := Some (LibErr ''403'')\<rparr>" ex_bot
        "[42 \<mapsto> 555]" "ex_msg ''<@1> edit\<newline>Y''"]
      edit_dispatch [OF c, of ex_session ex_bot "[42 \<mapsto> 555, 43 \<mapsto> 556]" "ex_msg ''<@1> edit\<newline>Y''"]
      t
    by (simp add: run_switch_def run_edit_def run_announce_def replyInternalError_def sendReply_def
        ex_Mention ex_defs)
qed

text \<open>
  C10: an edit command, whatever its outcome, leaves the bot state (\<open>SelfID\<close>,
  \<open>TargetGuildID\<close>, \<open>LastAnnouncedTime\<close> and the settings) and the contents of the
  store as they were, and never calls \<open>Store\<close>; a later edit of the same author
  therefore does what it would have done before.
\<close>

theorem edit_frame:
  assumes "Command c = ''edit''"
    and "run_switch s bs db ev c = (fx, bs', db')"
  shows "bs' = bs \<and> SelfID bs' = SelfID bs \<and> TargetGuildID bs' = TargetGuildID bs \<and>
         LastAnnouncedTime bs' = LastAnnouncedTime bs \<and> db' = db \<and>
         (\<forall>a m. Store a m \<notin> set fx) \<and>
         fst (run_switch s2 bs' db' ev c2) = fst (run_switch s2 bs db ev c2)"
proof -
  from assms have e: "run_edit s bs db ev c = (fx, bs', db')"
    by (simp add: run_switch_def)
  with run_edit_state [of s bs db ev c] have "bs' = bs" "db' = db" by simp_all
  moreover have "\<forall>a m. Store a m \<notin> set fx"
    using run_edit_effects [of _ s bs db ev c] e by auto
  ultimately show ?thesis by simp
qed

theorem edit_frame_witness:
  "run_switch (ex_session\<lparr>ans_EditMessage := Some (LibErr ''403'')\<rparr>)
      (ex_bot\<lparr>LastAnnouncedTime := 5\<rparr>) [42 \<mapsto> 555] (ex_msg ''<@1> edit\<newline>Y'') ex_edit =
     ([Load 42, EditMessage 100 555 ''Y'',
       Slog Error ''Bot has failed to edit the last announcement message.'',
       SendMessageReply 200
         ''<@42>, this bot has encountered an internal error. This error has been logged.'' 900],
      ex_bot\<lparr>LastAnnouncedTime := 5\<rparr>, [42 \<mapsto> 555]) \<and>
   LastAnnouncedTime (ex_bot\<lparr>LastAnnouncedTime := 5\<rparr>) = 5"
proof -
  have m: "Mention 42 = ''<@42>''" by code_simp
  have c: "Command ex_edit = ''edit''" by (simp add: ex_edit_def)
  have r: "run_switch (ex_session\<lparr>ans_EditMessage := Some (LibErr ''403'')\<rparr>)
      (ex_bot\<lparr>LastAnnouncedTime := 5\<rparr>) [42 \<mapsto> 555] (ex_msg ''<@1> edit\<newline>Y'') ex_edit =
     ([Load 42, EditMessage 100 555 ''Y'',
       Slog Error ''Bot has failed to edit the last announcement message.'',
       SendMessageReply 200
         ''<@42>, this bot has encountered an internal error. This error has been logged.'' 900],
      ex_bot\<lparr>LastAnnouncedTime := 5\<rparr>, [42 \<mapsto> 555])"
    by (simp add: run_switch_def run_edit_def ex_edit_def ex_session_def ex_msg_def ex_bot_def
        initial_def ex_settings_def replyInternalError_def sendReply_def m)
  show ?thesis
    using edit_frame [OF c r] r by simp
qed

section \<open>Properties of the loop\<close>

lemma trySubscribe_valid: "IsValid (TargetGuildID bs) \<Longrightarrow> trySubscribe s bs = (True, [], bs)"
  by (simp add: trySubscribe_def)

lemma run_announce_guild:
  "run_announce s bs db ev c = (fx, bs', db') \<Longrightarrow>
     TargetGuildID bs' = TargetGuildID bs \<and> (\<forall>g. Subscribe g \<notin> set fx) \<and> AddSyncHandler \<notin> set fx"
  by (auto simp: run_announce_def sendReply_def replyInternalError_def
      split: if_splits sum.splits option.splits)

lemma run_edit_guild:
  "run_edit s bs db ev c = (fx, bs', db') \<Longrightarrow>
     TargetGuildID bs' = TargetGuildID bs \<and> (\<forall>g. Subscribe g \<notin> set fx) \<and> AddSyncHandler \<notin> set fx"
  by (auto simp: run_edit_def sendReply_def replyInternalError_def
      split: if_splits sum.splits option.splits)

lemma run_switch_guild:
  "run_switch s bs db ev c = (fx, bs', db') \<Longrightarrow>
     TargetGuildID bs' = TargetGuildID bs \<and> (\<forall>g. Subscribe g \<notin> set fx) \<and> AddSyncHandler \<notin> set fx"
  using run_announce_guild run_edit_guild
  by (auto simp: run_switch_def split: if_splits)

lemma run_msg_guild:
  "run_msg u s bs db ev = (fx, bs', db') \<Longrightarrow>
     TargetGuildID bs' = TargetGuildID bs \<and> (\<forall>g. Subscribe g \<notin> set fx) \<and> AddSyncHandler \<notin> set fx"
  using run_switch_guild
  by (auto simp: run_msg_def split: sum.splits option.splits prod.splits)

lemma run_select_guild:
  assumes "IsValid (TargetGuildID bs)" "run_select u (bs, db) e = (res, fx, bs', db')"
  shows "TargetGuildID bs' = TargetGuildID bs \<and> (\<forall>g. Subscribe g \<notin> set fx) \<and> AddSyncHandler \<notin> set fx"
proof (cases e)
  case (Pair ev s)
  show ?thesis
  proof (cases ev)
    case (MessageCreate m)
    with Pair assms(2) obtain fx0 where "run_msg u s bs db m = (fx0, bs', db')" "fx = fx0"
      by (auto split: prod.splits)
    then show ?thesis using run_msg_guild by blast
  qed (use Pair assms in \<open>auto simp: trySubscribe_def\<close>)
qed

lemma run_loop_guild:
  assumes "IsValid (TargetGuildID bs)" "run_loop u (bs, db) evs = (res, fx, bs', db')"
  shows "TargetGuildID bs' = TargetGuildID bs \<and> (\<forall>g. Subscribe g \<notin> set fx) \<and> AddSyncHandler \<notin> set fx"
  using assms
proof (induction evs arbitrary: bs db fx res bs' db')
  case Nil
  then show ?case by simp
next
  case (Cons e evs)
  obtain r1 fx1 bs1 db1 where s1: "run_select u (bs, db) e = (r1, fx1, bs1, db1)"
    by (metis prod_cases4)
  note g1 = run_select_guild[OF Cons.prems(1) s1]
  show ?case
  proof (cases r1)
    case (Some err)
    with s1 Cons.prems(2) have "fx = fx1" "bs' = bs1" by auto
    with g1 show ?thesis by simp
  next
    case None
    obtain r2 fx2 bs2 db2 where s2: "run_loop u (bs1, db1) evs = (r2, fx2, bs2, db2)"
      by (metis prod_cases4)
    from None s1 s2 Cons.prems(2) have eq: "fx = fx1 @ fx2" "bs' = bs2" by auto
    from g1 Cons.prems(1) have "IsValid (TargetGuildID bs1)" by simp
    from Cons.IH[OF this s2] g1 eq show ?thesis by auto
  qed
qed

text \<open>
  C7: once \<open>TargetGuildID\<close> holds a valid guild identifier (the test \<open>trySubscribe\<close>
  itself makes), it never changes, whatever events the loop receives afterwards and
  whatever the outside answers; every later \<open>trySubscribe\<close> returns \<open>true\<close>
  without touching the state, and the loop never calls \<open>MemberState.Subscribe\<close> or
  \<open>AddSyncHandler\<close> again.
\<close>

theorem target_guild_fixed:
  assumes "IsValid (TargetGuildID bs)"
    and "run_loop u (bs, db) evs = (res, fx, bs', db')"
  shows "trySubscribe s bs = (True, [], bs) \<and>
         TargetGuildID bs' = TargetGuildID bs \<and>
         (\<forall>g. Subscribe g \<notin> set fx) \<and> AddSyncHandler \<notin> set fx"
  using trySubscribe_valid [OF assms(1)] run_loop_guild [OF assms] by simp

theorem target_guild_fixed_witness:
  "IsValid (TargetGuildID ex_bot) \<and>
   run_loop no_unicode (ex_bot, Map.empty)
      [(GuildCreate, ex_session\<lparr>ans_Channel := Inr 8\<rparr>), (Ready 1, ex_session\<lparr>ans_Channel := Inr 9\<rparr>),
       (ReadySupplemental, ex_session)] =
     (None, [Slog Info ''This bot is online. It is preparing to serve.''], ex_bot, Map.empty) \<and>
   trySubscribe (ex_session\<lparr>ans_Channel := Inr 8\<rparr>) ex_bot = (True, [], ex_bot) \<and>
   TargetGuildID ex_bot = 7 \<and>
   (\<forall>g. Subscribe g \<notin> set [Slog Info ''This bot is online. It is preparing to serve.'']) \<and>
   AddSyncHandler \<notin> set [Slog Info ''This bot is online. It is preparing to serve.''] \<and>
   IsValid (TargetGuildID (ex_bot\<lparr>TargetGuildID := 9223372036854775808\<rparr>)) \<and>
   run_loop no_unicode (ex_bot\<lparr>TargetGuildID := 9223372036854775808\<rparr>, Map.empty)
      [(GuildCreate, ex_session\<lparr>ans_Channel := Inr 8\<rparr>)] =
     (None, [], ex_bot\<lparr>TargetGuildID := 9223372036854775808\<rparr>, Map.empty) \<and>
   TargetGuildID (ex_bot\<lparr>TargetGuildID := 9223372036854775808\<rparr>) = 9223372036854775808"
proof -
  have hv: "IsValid (TargetGuildID (ex_bot\<lparr>TargetGuildID := 9223372036854775808\<rparr>))"
    by (simp add: IsValid_def NullSnowflake_def)
  have hl: "run_loop no_unicode (ex_bot\<lparr>TargetGuildID := 9223372036854775808\<rparr>, Map.empty)
      [(GuildCreate, ex_session\<lparr>ans_Channel := Inr 8\<rparr>)] =
     (None, [], ex_bot\<lparr>TargetGuildID := 9223372036854775808\<rparr>, Map.empty)"
    using hv by (simp add: trySubscribe_def)
  have 1: "IsValid (TargetGuildID ex_bot) \<and>
   run_loop no_unicode (ex_bot, Map.empty)
      [(GuildCreate, ex_session\<lparr>ans_Channel := Inr 8\<rparr>), (Ready 1, ex_session\<lparr>ans_Channel := Inr 9\<rparr>),
       (ReadySupplemental, ex_session)] =
     (None, [Slog Info ''This bot is online. It is preparing to serve.''], ex_bot, Map.empty) \<and>
   trySubscribe (ex_session\<lparr>ans_Channel := Inr 8\<rparr>) ex_bot = (True, [], ex_bot) \<and>
   TargetGuildID ex_bot = 7 \<and>
   (\<forall>g. Subscribe g \<notin> set [Slog Info ''This bot is online. It is preparing to serve.'']) \<and>
   AddSyncHandler \<notin> set [Slog Info ''This bot is online. It is preparing to serve.'']"
    using target_guild_fixed [OF ex_bot_valid ex_loop, of "ex_session\<lparr>ans_Channel := Inr 8\<rparr>"]
      ex_bot_valid ex_loop
    by (simp add: ex_bot_def)
  have 2: "TargetGuildID (ex_bot\<lparr>TargetGuildID := 9223372036854775808\<rparr>) = 9223372036854775808"
    using target_guild_fixed [OF hv hl] by simp
  from 1 hv hl 2 show ?thesis by - (elim conjE, intro conjI; assumption)
qed







end
